theory Spec2Isabelle
  imports Complex_Main "HOL-Library.Multiset"
begin

section \<open>Hybrid reliability metrics of the dashboard pages\<close>

text \<open>
  The reliability page (pages/03_Confiabilidade_Hibridos.py, lines 491-573) and the
  data-analysis page (pages/02_Analise_Dados.py, lines 646-709) compute, per hybrid, a
  handful of statistics over the production values of that hybrid.  Python floats are
  modelled as \<^typ>\<open>real\<close>; a missing cell (NaN) of the table as \<open>None\<close>.

  \<open>scipy.stats.norm.cdf\<close> is a function of the SciPy library, not of the repository: every
  definition that calls it takes it as the parameter \<open>cdf\<close>.
\<close>

subsection \<open>The filtered table\<close>

record linha =
  l_hibrido :: "string option"
  l_valor :: "string \<Rightarrow> real option"

text \<open>\<open>df[coluna].dropna()\<close>: the present values of one column, in row order.\<close>

definition serie :: "linha list \<Rightarrow> string \<Rightarrow> real list" where
  "serie df coluna = List.map_filter (\<lambda>r. l_valor r coluna) df"

text \<open>\<open>df_analise[df_analise['hibrido'].isin(hibridos_selecionados)]\<close> (line 477).\<close>

definition isin :: "string list \<Rightarrow> linha \<Rightarrow> bool" where
  "isin hibridos_selecionados r =
     (case l_hibrido r of None \<Rightarrow> False | Some h \<Rightarrow> h \<in> set hibridos_selecionados)"

definition df_analise :: "string list \<Rightarrow> linha list \<Rightarrow> linha list" where
  "df_analise hibridos_selecionados df = filter (isin hibridos_selecionados) df"

text \<open>\<open>df_analise[df_analise['hibrido'] == hibrido][coluna_producao].dropna()\<close> (line 501).\<close>

definition df_h :: "linha list \<Rightarrow> string \<Rightarrow> string \<Rightarrow> real list" where
  "df_h df coluna_producao hibrido =
     serie (filter (\<lambda>r. l_hibrido r = Some hibrido) df) coluna_producao"

subsection \<open>pandas \<open>mean\<close> and \<open>std\<close>\<close>

text \<open>
  \<open>Series.mean()\<close> of the present values.  On an empty series pandas returns NaN; the
  pages read the mean of a hybrid only under \<open>len(df_h) > 1\<close>, and the overall mean of an
  all-missing column is never compared with anything, because then every \<open>df_h\<close> is empty.
\<close>

definition media :: "real list \<Rightarrow> real" where
  "media xs = sum_list xs / real (length xs)"

text \<open>\<open>Series.std()\<close>: the sample standard deviation, denominator \<open>n - 1\<close>.\<close>

definition desvio :: "real list \<Rightarrow> real" where
  "desvio xs = sqrt (sum_list (map (\<lambda>x. (x - media xs)\<^sup>2) xs) / real (length xs - 1))"

subsection \<open>Rounding to one decimal\<close>

text \<open>\<open>round(x, 1)\<close>: the nearest multiple of 0.1, a tie going to the even neighbour.\<close>

definition rint :: "real \<Rightarrow> int" where
  "rint x =
     (let f = \<lfloor>x\<rfloor>; d = x - of_int f
      in if d < 1 / 2 then f else if 1 / 2 < d then f + 1 else if even f then f else f + 1)"

definition round1 :: "real \<Rightarrow> real" where
  "round1 x = of_int (rint (x * 10)) / 10"

subsection \<open>The locals of the loop body, reliability page (lines 503-554)\<close>

definition media_hibrido :: "real list \<Rightarrow> real" where
  "media_hibrido xs = media xs"

definition std_hibrido :: "real list \<Rightarrow> real" where
  "std_hibrido xs = desvio xs"

definition cv_hibrido :: "real list \<Rightarrow> real" where
  "cv_hibrido xs =
     (if media_hibrido xs \<noteq> 0 then std_hibrido xs / media_hibrido xs * 100 else 0)"

definition prob_z :: "(real \<Rightarrow> real) \<Rightarrow> real list \<Rightarrow> real" where
  "prob_z cdf xs =
     (if std_hibrido xs > 0 then
        (let limite_inf = media_hibrido xs * 0.90;
             limite_sup = media_hibrido xs * 1.10;
             z_inf = (limite_inf - media_hibrido xs) / std_hibrido xs;
             z_sup = (limite_sup - media_hibrido xs) / std_hibrido xs
         in (cdf z_sup - cdf z_inf) * 100)
      else 100.0)"

definition limiar_sucesso :: "real \<Rightarrow> real" where
  "limiar_sucesso media_geral = media_geral * 0.80"

definition taxa_sucesso :: "real \<Rightarrow> real list \<Rightarrow> real" where
  "taxa_sucesso limiar xs =
     (let n_obs = length xs; obs_sucesso = length (filter (\<lambda>x. x \<ge> limiar) xs)
      in (real obs_sucesso / real n_obs) * 100)"

definition risco_frustracao :: "real list \<Rightarrow> real" where
  "risco_frustracao xs =
     (let n_obs = length xs;
          limiar_frustracao = media_hibrido xs * 0.80;
          obs_frustracao = length (filter (\<lambda>x. x < limiar_frustracao) xs)
      in (real obs_frustracao / real n_obs) * 100)"

definition fator_obs :: "nat \<Rightarrow> real" where
  "fator_obs n_obs =
     (if n_obs \<ge> 20 then 100 else if n_obs \<ge> 10 then 80 else if n_obs \<ge> 5 then 60 else 40)"

definition score :: "(real \<Rightarrow> real) \<Rightarrow> real \<Rightarrow> real list \<Rightarrow> real" where
  "score cdf limiar xs =
     (prob_z cdf xs * 0.35) + (taxa_sucesso limiar xs * 0.35)
       + ((100 - risco_frustracao xs) * 0.20) + (fator_obs (length xs) * 0.10)"

datatype classe = Excelente | Bom | Regular | Baixo

definition classificacao :: "real \<Rightarrow> classe" where
  "classificacao s =
     (if s \<ge> 80 then Excelente else if s \<ge> 65 then Bom else if s \<ge> 50 then Regular else Baixo)"

subsection \<open>The appended row (lines 556-566) and the loop (lines 498-566)\<close>

record conf_row =
  c_Hibrido :: string
  c_Observacoes :: nat
  c_Media :: real
  c_CV :: real
  c_Prob_Z :: real
  c_Taxa_Sucesso :: real
  c_Risco :: real
  c_Score :: real
  c_Classificacao :: classe

text \<open>One pass of the loop body: a row under the guard \<open>len(df_h) > 1\<close>, nothing otherwise.\<close>

definition resultado_hibrido ::
  "(real \<Rightarrow> real) \<Rightarrow> real \<Rightarrow> string \<Rightarrow> real list \<Rightarrow> conf_row option" where
  "resultado_hibrido cdf limiar hibrido xs =
     (if length xs > 1 then
        Some \<lparr> c_Hibrido = hibrido,
               c_Observacoes = length xs,
               c_Media = round1 (media_hibrido xs),
               c_CV = round1 (cv_hibrido xs),
               c_Prob_Z = round1 (prob_z cdf xs),
               c_Taxa_Sucesso = round1 (taxa_sucesso limiar xs),
               c_Risco = round1 (risco_frustracao xs),
               c_Score = round1 (score cdf limiar xs),
               c_Classificacao = classificacao (score cdf limiar xs) \<rparr>
      else None)"

definition resultados ::
  "(real \<Rightarrow> real) \<Rightarrow> real \<Rightarrow> string list \<Rightarrow> linha list \<Rightarrow> string \<Rightarrow> conf_row list" where
  "resultados cdf limiar hibridos_selecionados df coluna_producao =
     List.map_filter (\<lambda>hibrido. resultado_hibrido cdf limiar hibrido (df_h df coluna_producao hibrido))
       hibridos_selecionados"

subsection \<open>The ranking (lines 569-573) and the whole block (lines 491-573, 877-878)\<close>

text \<open>
  \<open>df_conf.sort_values('Score', ascending=False)\<close> (line 570).  pandas computes, from the
  \<open>Score\<close> column alone, the list of row positions in ranking order, and takes the rows at
  these positions.  The position sort is the library's (\<open>kind='quicksort'\<close> by default, which
  promises nothing about equal keys): it is the parameter \<open>argsort\<close>, a function of the key
  column.
\<close>

definition sort_values :: "(real list \<Rightarrow> nat list) \<Rightarrow> conf_row list \<Rightarrow> conf_row list" where
  "sort_values argsort rs = map (\<lambda>i. rs ! i) (argsort (map c_Score rs))"

text \<open>
  What the library promises of a descending position sort: the positions of the column,
  each once, the keys never increasing along them.
\<close>

definition argsort_desc :: "(real list \<Rightarrow> nat list) \<Rightarrow> bool" where
  "argsort_desc argsort \<longleftrightarrow>
     (\<forall>ks. mset (argsort ks) = mset [0..<length ks]
           \<and> sorted_wrt (\<lambda>i j. ks ! i \<ge> ks ! j) (argsort ks))"

text \<open>
  Two position sorts that keep this promise: one leaves equal keys in their order, the other
  reverses them.
\<close>

definition argsort_estavel :: "real list \<Rightarrow> nat list" where
  "argsort_estavel ks = sort_key (\<lambda>i. - (ks ! i)) [0..<length ks]"

definition argsort_invertido :: "real list \<Rightarrow> nat list" where
  "argsort_invertido ks = rev (sort_key (\<lambda>i. ks ! i) [0..<length ks])"

text \<open>
  What the page shows from line 476 on: \<open>st.stop()\<close> after the request to select a hybrid,
  when the selection is empty; the ranked table; the warning of the \<open>else\<close> branch; or the
  \<open>KeyError\<close> that \<open>sort_values('Score')\<close> raises on the column-less frame
  \<open>pd.DataFrame([])\<close>, when no hybrid passed the guard.  The \<open>Rank\<close> column added after the
  sort is the position in the list.
\<close>

datatype saida = Tabela "conf_row list" | Aviso_sem_dados | KeyError_Score | Parado

definition confiabilidade ::
  "(real \<Rightarrow> real) \<Rightarrow> (real list \<Rightarrow> nat list) \<Rightarrow> string list \<Rightarrow> linha list \<Rightarrow> string
     \<Rightarrow> saida" where
  "confiabilidade cdf argsort hibridos_selecionados df coluna_producao =
     (if hibridos_selecionados = [] then Parado
      else
        (let dfa = df_analise hibridos_selecionados df
         in if length dfa > 0 \<and> length hibridos_selecionados > 0 then
              (let media_geral = media (serie dfa coluna_producao);
                   rs = resultados cdf (limiar_sucesso media_geral) hibridos_selecionados dfa
                          coluna_producao
               in if rs = [] then KeyError_Score else Tabela (sort_values argsort rs))
            else Aviso_sem_dados))"

subsection \<open>The probability table of the data-analysis page (lines 646-685)\<close>

record prob_row =
  p_Hibrido :: string
  p_Observacoes :: nat
  p_Media :: real
  p_Desvio_Padrao :: real
  p_CV :: real
  p_Probabilidade :: "real option"

text \<open>
  The page's locals \<open>media_hibrido\<close>, \<open>std_hibrido\<close> and \<open>cv_hibrido\<close> carry the suffix
  \<open>_p\<close> here, the names being taken by the reliability page.
\<close>

definition media_hibrido_p :: "real list \<Rightarrow> real" where
  "media_hibrido_p xs = media xs"

definition std_hibrido_p :: "real list \<Rightarrow> real" where
  "std_hibrido_p xs = desvio xs"

definition cv_hibrido_p :: "real list \<Rightarrow> real" where
  "cv_hibrido_p xs =
     (if media_hibrido_p xs \<noteq> 0 then std_hibrido_p xs / media_hibrido_p xs * 100 else 0)"

definition probabilidade :: "(real \<Rightarrow> real) \<Rightarrow> real list \<Rightarrow> real" where
  "probabilidade cdf xs =
     (if std_hibrido_p xs > 0 then
        (let limite_inferior = media_hibrido_p xs * 0.90;
             limite_superior = media_hibrido_p xs * 1.10;
             z_inferior = (limite_inferior - media_hibrido_p xs) / std_hibrido_p xs;
             z_superior = (limite_superior - media_hibrido_p xs) / std_hibrido_p xs
         in (cdf z_superior - cdf z_inferior) * 100)
      else 100.0)"

definition probabilidade_hibrido ::
  "(real \<Rightarrow> real) \<Rightarrow> string \<Rightarrow> real list \<Rightarrow> prob_row option" where
  "probabilidade_hibrido cdf hibrido xs =
     (if length xs > 1 then
        Some \<lparr> p_Hibrido = hibrido,
               p_Observacoes = length xs,
               p_Media = round1 (media_hibrido_p xs),
               p_Desvio_Padrao = round1 (std_hibrido_p xs),
               p_CV = round1 (cv_hibrido_p xs),
               p_Probabilidade = Some (round1 (probabilidade cdf xs)) \<rparr>
      else if length xs = 1 then
        Some \<lparr> p_Hibrido = hibrido,
               p_Observacoes = 1,
               p_Media = round1 (media xs),
               p_Desvio_Padrao = 0.0,
               p_CV = 0.0,
               p_Probabilidade = None \<rparr>
      else None)"

subsection \<open>Building a table row\<close>

text \<open>A row of hybrid \<open>h\<close> whose production columns both hold \<open>v\<close>; other columns are missing.\<close>

definition linha_de :: "string \<Rightarrow> real \<Rightarrow> linha" where
  "linha_de h v =
     \<lparr> l_hibrido = Some h,
       l_valor = (\<lambda>c. if c = ''prod_kg_ha_13_5'' \<or> c = ''prod_sc_ha_13_5'' then Some v else None) \<rparr>"

text \<open>
  A result row of hybrid \<open>h\<close> with the stored score \<open>s\<close>, the other fields those of two
  observations equal to 1.
\<close>

definition linha_exemplo :: "string \<Rightarrow> real \<Rightarrow> conf_row" where
  "linha_exemplo h s =
     \<lparr> c_Hibrido = h, c_Observacoes = 2, c_Media = 1, c_CV = 0, c_Prob_Z = 100,
       c_Taxa_Sucesso = 100, c_Risco = 0, c_Score = s, c_Classificacao = classificacao s \<rparr>"

subsection \<open>A concrete distribution function\<close>

text \<open>
  Closed instances of the statements below need one concrete \<open>cdf\<close>.  The logistic
  distribution function has every property of \<open>norm.cdf\<close> that the proofs use: it is
  strictly increasing, its values lie between 0 and 1, and its value at 0 is one half.
\<close>

definition cdf_logistica :: "real \<Rightarrow> real" where
  "cdf_logistica z = 1 / (1 + exp (- z))"

section \<open>Properties\<close>

subsection \<open>The observation factor\<close>

text \<open>
  C8.  \<open>fator_obs\<close> is the step function: 100 from 20 observations on, 80 from 10 to 19,
  60 from 5 to 9, 40 below 5; in particular 19 gives 80 and 20 gives 100.
\<close>

theorem fator_obs_step:
  "(20 \<le> n \<longrightarrow> fator_obs n = 100)
   \<and> (10 \<le> n \<and> n < 20 \<longrightarrow> fator_obs n = 80)
   \<and> (5 \<le> n \<and> n < 10 \<longrightarrow> fator_obs n = 60)
   \<and> (n < 5 \<longrightarrow> fator_obs n = 40)
   \<and> fator_obs 19 = 80 \<and> fator_obs 20 = 100"
  by (simp add: fator_obs_def)

theorem fator_obs_step_witness:
  "fator_obs 25 = 100 \<and> fator_obs 12 = 80 \<and> fator_obs 7 = 60 \<and> fator_obs 3 = 40"
  using fator_obs_step [of 25] fator_obs_step [of 12] fator_obs_step [of 7]
    fator_obs_step [of 3]
  by simp

subsection \<open>Evaluations used by the closed instances\<close>

lemma desvio_const2: "desvio [a, a] = 0"
  by (simp add: desvio_def media_def)

lemma desvio_1_3: "desvio [1, 3] = sqrt 2"
  by (simp add: desvio_def media_def power2_eq_square)

lemma taxa_const: "taxa_sucesso (4 / 5) [1, 1] = 100"
  by (simp add: taxa_sucesso_def)

lemma risco_const: "risco_frustracao [1, 1] = 0"
  by (simp add: risco_frustracao_def media_hibrido_def media_def)

lemma score_const: "score cdf (4 / 5) [1, 1] = 94"
  by (simp add: score_def prob_z_def std_hibrido_def desvio_const2 taxa_const risco_const
      fator_obs_def)

subsection \<open>Rounding\<close>

lemma rint_of_int: "rint (of_int k) = k"
  by (simp add: rint_def)



lemma round1_idem: "round1 (round1 x) = round1 x"
  by (simp add: round1_def rint_of_int)



lemma round1_9_8: "round1 (9 / 8) = 11 / 10"
  by (simp add: round1_def rint_def Let_def)

lemma row_1_1: "resultado_hibrido cdf (4 / 5) h [1, 1] =
    Some \<lparr> c_Hibrido = h, c_Observacoes = 2, c_Media = round1 1, c_CV = round1 0,
           c_Prob_Z = round1 100, c_Taxa_Sucesso = round1 100, c_Risco = round1 0,
           c_Score = round1 94, c_Classificacao = Excelente \<rparr>"
  by (simp add: resultado_hibrido_def score_const taxa_const risco_const media_hibrido_def
      media_def cv_hibrido_def std_hibrido_def desvio_const2 prob_z_def classificacao_def)

subsection \<open>The logistic distribution function\<close>




subsection \<open>The coefficient of variation\<close>

text \<open>
  C5, as the claim states it, fails.  The claim: the coefficient of variation is the
  undefined sentinel, and in particular not 0, whenever the mean is 0.  Both pages write
  \<open>... if media_hibrido != 0 else 0\<close>: for the observations \<open>[-1, 1]\<close>, of mean 0 and non-zero
  standard deviation, the value is the number 0.
\<close>

theorem cv_zero_mean_is_zero:
  "media_hibrido [- 1, 1] = 0 \<and> cv_hibrido [- 1, 1] = 0 \<and> cv_hibrido_p [- 1, 1] = 0"
  by (simp add: cv_hibrido_def cv_hibrido_p_def media_hibrido_def media_hibrido_p_def media_def)

text \<open>
  C5, amended.  On both pages the coefficient of variation is the number 0 when the mean
  is 0, and \<open>std / mean * 100\<close> otherwise; it is a number in every case.
\<close>

theorem cv_hibrido_cases:
  "(media_hibrido xs = 0 \<longrightarrow> cv_hibrido xs = 0)
   \<and> (media_hibrido xs \<noteq> 0 \<longrightarrow> cv_hibrido xs = std_hibrido xs / media_hibrido xs * 100)
   \<and> (media_hibrido_p xs = 0 \<longrightarrow> cv_hibrido_p xs = 0)
   \<and> (media_hibrido_p xs \<noteq> 0 \<longrightarrow> cv_hibrido_p xs = std_hibrido_p xs / media_hibrido_p xs * 100)"
  by (simp add: cv_hibrido_def cv_hibrido_p_def)

theorem cv_hibrido_cases_witness:
  "media_hibrido [- 1, 1] = 0 \<and> cv_hibrido [- 1, 1] = 0
   \<and> media_hibrido [1, 3] \<noteq> 0 \<and> cv_hibrido [1, 3] = sqrt 2 / 2 * 100
   \<and> cv_hibrido_p [- 1, 1] = 0 \<and> cv_hibrido_p [1, 3] = sqrt 2 / 2 * 100"
  using cv_hibrido_cases [of "[- 1, 1]"] cv_hibrido_cases [of "[1, 3]"]
  by (simp add: media_hibrido_def media_hibrido_p_def std_hibrido_def std_hibrido_p_def
      media_def desvio_1_3)

subsection \<open>The two pages compute the same Z-probability\<close>

text \<open>
  C9.  For every observation list of at least two values the data-analysis page and the
  reliability page compute the same probability: the same mean, the same sample standard
  deviation, the same bounds, and 100 in the branch where the standard deviation is not
  positive; the rounded values stored in the two rows agree as well.
\<close>

theorem z_pages_agree:
  "length xs > 1 \<Longrightarrow>
     probabilidade cdf xs = prob_z cdf xs
     \<and> media_hibrido_p xs = media_hibrido xs
     \<and> std_hibrido_p xs = std_hibrido xs
     \<and> (\<not> std_hibrido xs > 0 \<longrightarrow> probabilidade cdf xs = 100 \<and> prob_z cdf xs = 100)
     \<and> (\<exists>p r. probabilidade_hibrido cdf h xs = Some p \<and> resultado_hibrido cdf limiar h xs = Some r
           \<and> p_Probabilidade p = Some (c_Prob_Z r))"
  by (simp add: probabilidade_def prob_z_def media_hibrido_def media_hibrido_p_def
      std_hibrido_def std_hibrido_p_def probabilidade_hibrido_def resultado_hibrido_def)

theorem z_pages_agree_witness:
  "length [9000, 9000 :: real] > 1
   \<and> probabilidade cdf_logistica [9000, 9000] = 100 \<and> prob_z cdf_logistica [9000, 9000] = 100"
  using z_pages_agree [of "[9000, 9000]" cdf_logistica "''A''" 0]
  by (simp add: std_hibrido_def desvio_const2)

subsection \<open>The score\<close>

text \<open>
  C3.  With at least two observations a row is produced, and the score it is built from is
  \<open>prob_z * 0.35 + taxa_sucesso * 0.35 + (100 - risco_frustracao) * 0.20 + fator_obs * 0.10\<close>,
  the weights as written and nothing renormalised (the row stores this score rounded to one
  decimal and classifies the unrounded one); with fewer observations there is no row and so
  no score.
\<close>

theorem score_formula:
  "(length xs > 1 \<longrightarrow>
      (\<exists>r. resultado_hibrido cdf limiar h xs = Some r
         \<and> c_Score r = round1 (score cdf limiar xs)
         \<and> c_Classificacao r = classificacao (score cdf limiar xs)))
   \<and> score cdf limiar xs
       = prob_z cdf xs * 0.35 + taxa_sucesso limiar xs * 0.35
         + (100 - risco_frustracao xs) * 0.20 + fator_obs (length xs) * 0.10
   \<and> (\<not> length xs > 1 \<longrightarrow> resultado_hibrido cdf limiar h xs = None)"
  by (simp add: resultado_hibrido_def score_def)

theorem score_formula_witness:
  "score cdf_logistica (4 / 5) [1, 1] = 94
   \<and> (\<exists>r. resultado_hibrido cdf_logistica (4 / 5) ''A'' [1, 1] = Some r)
   \<and> resultado_hibrido cdf_logistica (4 / 5) ''A'' [1] = None"
  using score_formula [of "[1, 1]" cdf_logistica "4 / 5" "''A''"]
    score_formula [of "[1]" cdf_logistica "4 / 5" "''A''"]
  by (auto simp add: score_const)

subsection \<open>A hybrid with a single observation\<close>

text \<open>
  C2, as the claim states it, fails.  The claim: a hybrid with exactly one observation
  still gets a record, with the rates defined.  The loop body runs under
  \<open>if len(df_h) > 1\<close> and has no other branch: for hybrid B with the observations \<open>[100]\<close> and
  the overall mean 100 nothing is appended.
\<close>

theorem single_obs_no_row:
  "resultado_hibrido cdf_logistica (limiar_sucesso 100) ''B'' [100] = None"
  by (simp add: resultado_hibrido_def)

text \<open>
  C2, amended.  The reliability page produces a row, and with it a score, exactly for the
  hybrids with at least two observations.  A hybrid with exactly one observation gets no
  reliability row; only the data-analysis page emits a row for it, with the probability
  undefined and the standard deviation and the coefficient of variation reported as 0.
\<close>

theorem row_iff_two_obs:
  "(resultado_hibrido cdf limiar h xs = None \<longleftrightarrow> length xs < 2)
   \<and> (length xs = 1 \<longrightarrow>
        (\<exists>p. probabilidade_hibrido cdf h xs = Some p \<and> p_Observacoes p = 1
            \<and> p_Probabilidade p = None \<and> p_Desvio_Padrao p = 0 \<and> p_CV p = 0))"
  by (auto simp add: resultado_hibrido_def probabilidade_hibrido_def)

theorem row_iff_two_obs_witness:
  "resultado_hibrido cdf_logistica 80 ''B'' [100] = None
   \<and> (\<exists>p. probabilidade_hibrido cdf_logistica ''B'' [100] = Some p
          \<and> p_Probabilidade p = None \<and> p_CV p = 0)
   \<and> resultado_hibrido cdf_logistica 80 ''B'' [100, 100] \<noteq> None"
  using row_iff_two_obs [of cdf_logistica 80 "''B''" "[100]"]
    row_iff_two_obs [of cdf_logistica 80 "''B''" "[100, 100]"]
  by auto

text \<open>
  When no selected hybrid has two observations the list of rows is empty, and the page
  fails in \<open>sort_values\<close> instead of showing a table.
\<close>

lemma single_obs_only_keyerror:
  "confiabilidade cdf argsort [''B''] [linha_de ''B'' 100] ''prod_kg_ha_13_5'' = KeyError_Score"
  by (simp add: confiabilidade_def df_analise_def isin_def linha_de_def resultados_def df_h_def
      serie_def List.map_filter_simps resultado_hibrido_def)

subsection \<open>The success rate and the threshold ratio\<close>

lemma filter_ge_antimono:
  "l1 \<le> l2 \<Longrightarrow>
     length (filter (\<lambda>x. x \<ge> l2) xs) \<le> length (filter (\<lambda>x. x \<ge> (l1::real)) xs)"
  by (induction xs) auto

lemma taxa_sucesso_antimono_limiar:
  assumes "l1 \<le> l2"
  shows "taxa_sucesso l2 xs \<le> taxa_sucesso l1 xs"
proof -
  have "real (length (filter (\<lambda>x. x \<ge> l2) xs)) \<le> real (length (filter (\<lambda>x. x \<ge> l1) xs))"
    using filter_ge_antimono [OF assms] by simp
  then have "real (length (filter (\<lambda>x. x \<ge> l2) xs)) / real (length xs)
      \<le> real (length (filter (\<lambda>x. x \<ge> l1) xs)) / real (length xs)"
    by (rule divide_right_mono) simp
  then have "real (length (filter (\<lambda>x. x \<ge> l2) xs)) / real (length xs) * 100
      \<le> real (length (filter (\<lambda>x. x \<ge> l1) xs)) / real (length xs) * 100"
    by (rule mult_right_mono) simp
  then show ?thesis
    unfolding taxa_sucesso_def Let_def .
qed

text \<open>
  C7, as the claim states it, fails.  The claim: for every reference mean, raising the
  ratio from 0.80 to 1.0 never increases the success rate.  The threshold is
  \<open>media_geral * ratio\<close>; with the reference mean -10 the ratio 1.0 gives the lower threshold,
  and the observations \<open>[-9, -9]\<close> go from a success rate of 0 to one of 100.
\<close>

theorem taxa_sucesso_negative_mean:
  "(0.80::real) \<le> 1 \<and> taxa_sucesso (- 10 * 0.80) [- 9, - 9] = 0
   \<and> taxa_sucesso (- 10 * 1) [- 9, - 9] = 100"
  by (simp add: taxa_sucesso_def)

text \<open>
  C7, amended.  For a reference mean that is not negative, and any ratios \<open>r1 \<le> r2\<close>, the
  success rate at \<open>r2\<close> is at most the success rate at \<open>r1\<close>; the page's own threshold is the
  case \<open>r1 = 0.80\<close>.
\<close>

theorem taxa_sucesso_ratio_antimono:
  assumes "0 \<le> media_geral" and "r1 \<le> r2"
  shows "taxa_sucesso (media_geral * r2) xs \<le> taxa_sucesso (media_geral * r1) xs
         \<and> (r1 = 0.80 \<longrightarrow>
              taxa_sucesso (media_geral * r2) xs \<le> taxa_sucesso (limiar_sucesso media_geral) xs)"
proof -
  have "media_geral * r1 \<le> media_geral * r2"
    using assms(2) assms(1) by (rule mult_left_mono)
  then have le: "taxa_sucesso (media_geral * r2) xs \<le> taxa_sucesso (media_geral * r1) xs"
    by (rule taxa_sucesso_antimono_limiar)
  have "taxa_sucesso (media_geral * r2) xs \<le> taxa_sucesso (limiar_sucesso media_geral) xs"
    if "r1 = 0.80"
    using le unfolding that limiar_sucesso_def .
  with le show ?thesis
    by blast
qed

theorem taxa_sucesso_ratio_antimono_witness:
  "(0::real) \<le> 8500 \<and> (0.80::real) \<le> 1
   \<and> taxa_sucesso (8500 * 1) [7000, 6000, 7200, 6900]
       \<le> taxa_sucesso (limiar_sucesso 8500) [7000, 6000, 7200, 6900]"
  using taxa_sucesso_ratio_antimono [of 8500 "0.80" 1 "[7000, 6000, 7200, 6900]"]
  by simp

subsection \<open>Rounding happens inside the loop\<close>

text \<open>
  C6, as the claim states it, fails.  The claim: the record fields are full-precision
  values, rounding being left to the presentation.  The row is appended with
  \<open>round(media_hibrido, 1)\<close> and likewise for the other five numeric fields: for the
  observations \<open>[1, 1.25]\<close> the mean is 1.125 and the row's \<open>Media\<close> is 1.1.
\<close>

theorem row_media_rounded:
  "map_option c_Media (resultado_hibrido cdf_logistica 0 ''A'' [1, 5 / 4]) = Some (11 / 10)
   \<and> media_hibrido [1, 5 / 4] = 9 / 8"
  by (simp add: resultado_hibrido_def media_hibrido_def media_def round1_9_8)

text \<open>
  C6, amended.  Every numeric field of a produced row (mean, coefficient of variation,
  Z-probability, success rate, risk, score) is the one-decimal rounding of the computed
  value, done where the row is appended; so each field equals its own one-decimal rounding.
\<close>

theorem row_fields_rounded:
  assumes "resultado_hibrido cdf limiar h xs = Some r"
  shows "c_Media r = round1 (media_hibrido xs) \<and> round1 (c_Media r) = c_Media r
       \<and> c_CV r = round1 (cv_hibrido xs) \<and> round1 (c_CV r) = c_CV r
       \<and> c_Prob_Z r = round1 (prob_z cdf xs) \<and> round1 (c_Prob_Z r) = c_Prob_Z r
       \<and> c_Taxa_Sucesso r = round1 (taxa_sucesso limiar xs) \<and> round1 (c_Taxa_Sucesso r) = c_Taxa_Sucesso r
       \<and> c_Risco r = round1 (risco_frustracao xs) \<and> round1 (c_Risco r) = c_Risco r
       \<and> c_Score r = round1 (score cdf limiar xs) \<and> round1 (c_Score r) = c_Score r"
proof -
  from assms have r: "r = \<lparr> c_Hibrido = h,
               c_Observacoes = length xs,
               c_Media = round1 (media_hibrido xs),
               c_CV = round1 (cv_hibrido xs),
               c_Prob_Z = round1 (prob_z cdf xs),
               c_Taxa_Sucesso = round1 (taxa_sucesso limiar xs),
               c_Risco = round1 (risco_frustracao xs),
               c_Score = round1 (score cdf limiar xs),
               c_Classificacao = classificacao (score cdf limiar xs) \<rparr>"
    by (simp add: resultado_hibrido_def split: if_splits)
  show ?thesis
    unfolding r by (simp add: round1_idem)
qed

theorem row_fields_rounded_witness:
  "resultado_hibrido cdf_logistica (4 / 5) ''A'' [1, 1] =
    Some \<lparr> c_Hibrido = ''A'', c_Observacoes = 2, c_Media = round1 1, c_CV = round1 0,
           c_Prob_Z = round1 100, c_Taxa_Sucesso = round1 100, c_Risco = round1 0,
           c_Score = round1 94, c_Classificacao = Excelente \<rparr>
   \<and> round1 (round1 94) = round1 94"
proof -
  let ?r = "\<lparr> c_Hibrido = ''A'', c_Observacoes = 2, c_Media = round1 1, c_CV = round1 0,
           c_Prob_Z = round1 100, c_Taxa_Sucesso = round1 100, c_Risco = round1 0,
           c_Score = round1 94, c_Classificacao = Excelente \<rparr>"
  note row = row_1_1 [of cdf_logistica "''A''"]
  have "round1 (c_Score ?r) = c_Score ?r"
    using row_fields_rounded [OF row] by blast
  then have "round1 (round1 94) = round1 94"
    by simp
  with row show ?thesis
    by (rule conjI)
qed

subsection \<open>The range of the Z-probability\<close>










subsection \<open>The ranking\<close>

lemma argsort_estavel_desc: "argsort_desc argsort_estavel"
  unfolding argsort_desc_def
proof (intro allI conjI)
  fix ks :: "real list"
  show "mset (argsort_estavel ks) = mset [0..<length ks]"
    by (simp add: argsort_estavel_def)
  have "sorted (map (\<lambda>i. - (ks ! i)) (sort_key (\<lambda>i. - (ks ! i)) [0..<length ks]))"
    by (rule sorted_sort_key)
  then show "sorted_wrt (\<lambda>i j. ks ! i \<ge> ks ! j) (argsort_estavel ks)"
    by (simp add: sorted_map argsort_estavel_def)
qed

lemma argsort_invertido_desc: "argsort_desc argsort_invertido"
  unfolding argsort_desc_def
proof (intro allI conjI)
  fix ks :: "real list"
  show "mset (argsort_invertido ks) = mset [0..<length ks]"
    by (simp add: argsort_invertido_def)
  have "sorted (map (\<lambda>i. ks ! i) (sort_key (\<lambda>i. ks ! i) [0..<length ks]))"
    by (rule sorted_sort_key)
  then have "sorted_wrt (\<lambda>i j. ks ! i \<le> ks ! j) (sort_key (\<lambda>i. ks ! i) [0..<length ks])"
    by (simp add: sorted_map)
  then show "sorted_wrt (\<lambda>i j. ks ! i \<ge> ks ! j) (argsort_invertido ks)"
    by (simp add: argsort_invertido_def sorted_wrt_rev)
qed

lemma sort_values_mset:
  assumes "argsort_desc argsort"
  shows "mset (sort_values argsort rs) = mset rs"
proof -
  have "mset (argsort (map c_Score rs)) = mset [0..<length rs]"
    using assms by (simp add: argsort_desc_def)
  then have "image_mset (\<lambda>i. rs ! i) (mset (argsort (map c_Score rs)))
      = image_mset (\<lambda>i. rs ! i) (mset [0..<length rs])"
    by simp
  then have "mset (map (\<lambda>i. rs ! i) (argsort (map c_Score rs)))
      = mset (map (\<lambda>i. rs ! i) [0..<length rs])"
    by (simp only: mset_map)
  then show ?thesis
    by (simp add: sort_values_def map_nth)
qed

lemma sort_values_sorted:
  assumes "argsort_desc argsort"
  shows "sorted_wrt (\<lambda>a b. c_Score a \<ge> c_Score b) (sort_values argsort rs)"
proof -
  let ?ks = "map c_Score rs" and ?idx = "argsort (map c_Score rs)"
  have m: "mset ?idx = mset [0..<length ?ks]"
    and s: "sorted_wrt (\<lambda>i j. ?ks ! i \<ge> ?ks ! j) ?idx"
    using assms by (simp_all add: argsort_desc_def)
  from m have "set ?idx = set [0..<length ?ks]"
    by (rule mset_eq_setD)
  then have lt: "i < length rs" if "i \<in> set ?idx" for i
    using that by simp
  have "sorted_wrt (\<lambda>i j. c_Score (rs ! i) \<ge> c_Score (rs ! j)) ?idx"
    using s by (rule sorted_wrt_mono_rel [rotated]) (simp add: lt)
  then show ?thesis
    by (simp add: sort_values_def sorted_wrt_map)
qed

text \<open>
  Two rows of equal score: a position sort that keeps its promise either leaves both
  orders of the pair as they are or reverses both, since it sees the same two keys.
\<close>

lemma perm_two_positions:
  assumes "mset (xs :: nat list) = mset [0, 1]"
  shows "xs = [0, 1] \<or> xs = [1, 0]"
proof -
  have "length xs = length [0, 1 :: nat]"
    using assms by (rule mset_eq_length)
  then obtain a b where xs: "xs = [a, b]"
    by (cases xs; cases "tl xs") auto
  have "set xs = set [0, 1 :: nat]"
    using assms by (rule mset_eq_setD)
  moreover have "distinct xs"
    using mset_eq_imp_distinct_iff [OF assms] by simp
  ultimately show ?thesis
    unfolding xs by (auto simp add: doubleton_eq_iff)
qed

lemma sort_values_tie:
  assumes "argsort_desc argsort" and "c_Score ra = c_Score rb"
  shows "(sort_values argsort [ra, rb] = [ra, rb] \<and> sort_values argsort [rb, ra] = [rb, ra])
       \<or> (sort_values argsort [ra, rb] = [rb, ra] \<and> sort_values argsort [rb, ra] = [ra, rb])"
proof -
  let ?ks = "[c_Score rb, c_Score rb]"
  have u: "[0..<length ?ks] = [0, 1]"
    by (simp add: upt_rec)
  have "mset (argsort ?ks) = mset [0..<length ?ks]"
    using assms(1) unfolding argsort_desc_def by blast
  then have "mset (argsort ?ks) = mset [0, 1]"
    by (simp only: u)
  then have "argsort ?ks = [0, 1] \<or> argsort ?ks = [1, 0]"
    by (rule perm_two_positions)
  then show ?thesis
    by (auto simp add: sort_values_def assms(2))
qed

lemma argsort_estavel_tie: "argsort_estavel [k, k] = [0, 1]"
  by (simp add: argsort_estavel_def)

lemma argsort_invertido_tie: "argsort_invertido [k, k] = [1, 0]"
  by (simp add: argsort_invertido_def)

lemma round1_numerals: "round1 1 = 1" "round1 0 = 0" "round1 100 = 100" "round1 94 = 94"
  by (simp_all add: round1_def rint_def)

lemma df_h_exemplo:
  "df_h [linha_de ''B'' 1, linha_de ''B'' 1, linha_de ''A'' 1, linha_de ''A'' 1]
      ''prod_kg_ha_13_5'' ''B'' = [1, 1]"
  "df_h [linha_de ''B'' 1, linha_de ''B'' 1, linha_de ''A'' 1, linha_de ''A'' 1]
      ''prod_kg_ha_13_5'' ''A'' = [1, 1]"
  by (simp_all add: df_h_def serie_def linha_de_def List.map_filter_simps)

lemma df_analise_exemplo:
  "df_analise [''B'', ''A''] [linha_de ''B'' 1, linha_de ''B'' 1, linha_de ''A'' 1, linha_de ''A'' 1]
     = [linha_de ''B'' 1, linha_de ''B'' 1, linha_de ''A'' 1, linha_de ''A'' 1]"
  "df_analise [''A'', ''B''] [linha_de ''B'' 1, linha_de ''B'' 1, linha_de ''A'' 1, linha_de ''A'' 1]
     = [linha_de ''B'' 1, linha_de ''B'' 1, linha_de ''A'' 1, linha_de ''A'' 1]"
  by (simp_all add: df_analise_def isin_def linha_de_def)

lemma serie_exemplo:
  "serie [linha_de ''B'' 1, linha_de ''B'' 1, linha_de ''A'' 1, linha_de ''A'' 1] ''prod_kg_ha_13_5''
     = [1, 1, 1, 1]"
  by (simp add: serie_def linha_de_def List.map_filter_simps)

lemma limiar_exemplo: "limiar_sucesso (media [1, 1, 1, 1]) = 4 / 5"
  by (simp add: limiar_sucesso_def media_def)

lemma resultados_exemplo:
  "resultados cdf (4 / 5) [''B'', ''A'']
     [linha_de ''B'' 1, linha_de ''B'' 1, linha_de ''A'' 1, linha_de ''A'' 1] ''prod_kg_ha_13_5''
   = [\<lparr> c_Hibrido = ''B'', c_Observacoes = 2, c_Media = 1, c_CV = 0, c_Prob_Z = 100,
          c_Taxa_Sucesso = 100, c_Risco = 0, c_Score = 94, c_Classificacao = Excelente \<rparr>,
      \<lparr> c_Hibrido = ''A'', c_Observacoes = 2, c_Media = 1, c_CV = 0, c_Prob_Z = 100,
          c_Taxa_Sucesso = 100, c_Risco = 0, c_Score = 94, c_Classificacao = Excelente \<rparr>]"
  "resultados cdf (4 / 5) [''A'', ''B'']
     [linha_de ''B'' 1, linha_de ''B'' 1, linha_de ''A'' 1, linha_de ''A'' 1] ''prod_kg_ha_13_5''
   = [\<lparr> c_Hibrido = ''A'', c_Observacoes = 2, c_Media = 1, c_CV = 0, c_Prob_Z = 100,
          c_Taxa_Sucesso = 100, c_Risco = 0, c_Score = 94, c_Classificacao = Excelente \<rparr>,
      \<lparr> c_Hibrido = ''B'', c_Observacoes = 2, c_Media = 1, c_CV = 0, c_Prob_Z = 100,
          c_Taxa_Sucesso = 100, c_Risco = 0, c_Score = 94, c_Classificacao = Excelente \<rparr>]"
  by (simp_all add: resultados_def df_h_exemplo row_1_1 round1_numerals List.map_filter_simps)

lemma argsort_estavel_50_94: "argsort_estavel [50, 94] = [1, 0]"
  by (simp add: argsort_estavel_def)

text \<open>
  C4, as the claim states it, fails.  The claim: records of equal score are ordered by
  hybrid id, ascending.  The page sorts on the column \<open>Score\<close> alone.  Take the hybrids A
  and B with the same observations \<open>[1, 1]\<close>, so both rows have the score 94.  If the sort
  leaves equal keys in place, selecting B before A lists B before A; if it reverses them,
  selecting A before B lists B before A.
\<close>

theorem ranking_tie_not_by_id:
  "confiabilidade cdf_logistica argsort_estavel [''B'', ''A'']
     [linha_de ''B'' 1, linha_de ''B'' 1, linha_de ''A'' 1, linha_de ''A'' 1] ''prod_kg_ha_13_5''
   = Tabela
      [\<lparr> c_Hibrido = ''B'', c_Observacoes = 2, c_Media = 1, c_CV = 0, c_Prob_Z = 100,
          c_Taxa_Sucesso = 100, c_Risco = 0, c_Score = 94, c_Classificacao = Excelente \<rparr>,
       \<lparr> c_Hibrido = ''A'', c_Observacoes = 2, c_Media = 1, c_CV = 0, c_Prob_Z = 100,
          c_Taxa_Sucesso = 100, c_Risco = 0, c_Score = 94, c_Classificacao = Excelente \<rparr>]
   \<and> confiabilidade cdf_logistica argsort_invertido [''A'', ''B'']
     [linha_de ''B'' 1, linha_de ''B'' 1, linha_de ''A'' 1, linha_de ''A'' 1] ''prod_kg_ha_13_5''
   = Tabela
      [\<lparr> c_Hibrido = ''B'', c_Observacoes = 2, c_Media = 1, c_CV = 0, c_Prob_Z = 100,
          c_Taxa_Sucesso = 100, c_Risco = 0, c_Score = 94, c_Classificacao = Excelente \<rparr>,
       \<lparr> c_Hibrido = ''A'', c_Observacoes = 2, c_Media = 1, c_CV = 0, c_Prob_Z = 100,
          c_Taxa_Sucesso = 100, c_Risco = 0, c_Score = 94, c_Classificacao = Excelente \<rparr>]"
  by (simp add: confiabilidade_def df_analise_exemplo serie_exemplo limiar_exemplo
      resultados_exemplo sort_values_def argsort_estavel_tie argsort_invertido_tie)

text \<open>
  C4, amended.  For a position sort that keeps the library's promise, the ranking is a
  rearrangement of the produced rows in which the stored (rounded) scores never increase.
  The positions are computed from the \<open>Score\<close> column alone: whatever order rows of equal
  score come out in, no hybrid id enters it.
\<close>

theorem sort_values_order:
  assumes "argsort_desc argsort"
  shows "mset (sort_values argsort rs) = mset rs
       \<and> sorted_wrt (\<lambda>a b. c_Score a \<ge> c_Score b) (sort_values argsort rs)
       \<and> (map c_Score rs' = map c_Score rs \<longrightarrow>
            map c_Hibrido (sort_values argsort rs')
              = map (\<lambda>i. c_Hibrido (rs' ! i)) (argsort (map c_Score rs)))"
  using sort_values_mset [OF assms] sort_values_sorted [OF assms]
  by (simp add: sort_values_def)

theorem sort_values_order_witness:
  "argsort_desc argsort_estavel
   \<and> sort_values argsort_estavel [linha_exemplo ''A'' 50, linha_exemplo ''B'' 94]
       = [linha_exemplo ''B'' 94, linha_exemplo ''A'' 50]
   \<and> mset [linha_exemplo ''B'' 94, linha_exemplo ''A'' 50]
       = mset [linha_exemplo ''A'' 50, linha_exemplo ''B'' 94]
   \<and> map c_Hibrido (sort_values argsort_estavel [linha_exemplo ''C'' 50, linha_exemplo ''D'' 94])
       = [''D'', ''C'']"
proof -
  let ?rs = "[linha_exemplo ''A'' 50, linha_exemplo ''B'' 94]"
  let ?rs' = "[linha_exemplo ''C'' 50, linha_exemplo ''D'' 94]"
  have sv: "sort_values argsort_estavel ?rs = [linha_exemplo ''B'' 94, linha_exemplo ''A'' 50]"
    by (simp add: sort_values_def linha_exemplo_def argsort_estavel_50_94)
  have ks: "map c_Score ?rs' = map c_Score ?rs"
    by (simp add: linha_exemplo_def)
  from sort_values_order [OF argsort_estavel_desc, of ?rs ?rs'] ks
  have "mset (sort_values argsort_estavel ?rs) = mset ?rs"
    and "map c_Hibrido (sort_values argsort_estavel ?rs')
          = map (\<lambda>i. c_Hibrido (?rs' ! i)) (argsort_estavel (map c_Score ?rs))"
    by blast+
  then have "mset [linha_exemplo ''B'' 94, linha_exemplo ''A'' 50] = mset ?rs"
    and "map c_Hibrido (sort_values argsort_estavel ?rs') = [''D'', ''C'']"
    by (simp_all add: sv linha_exemplo_def argsort_estavel_50_94)
  with argsort_estavel_desc sv show ?thesis
    by (intro conjI)
qed

end
